theory Spec2Isabelle
  imports Complex_Main "HOL-Library.Code_Target_Numeral"
begin

section \<open>Machine integers of the C sources\<close>

text \<open>
  \<open>size_t\<close> and \<open>uint64_t\<close> values are natural numbers below \<open>2 ^ 64\<close>; a C \<open>int\<close> is an
  integer in the 32-bit two's complement range. The conversions below are the ones the
  sources perform implicitly whenever an \<open>int\<close> meets a \<open>size_t\<close>. Both programs reject
  every \<open>size\<close> above \<open>10e6\<close>, so products of two sizes stay far below \<open>2 ^ 64\<close> and are
  written without reduction; what can leave its range is a cell count stored in an \<open>int\<close>.
  Row and column indices never leave \<open>0..size\<close> and are natural numbers.

  The \<open>double\<close> cells are elements of an ordered field: the arithmetic of the model is
  exact and rounding is not represented. The initial cells lie between 0 and 1 and an
  average of four such cells does too, so the programs meet no infinity and no NaN.
\<close>

definition to_size_t :: "int \<Rightarrow> nat" where
  "to_size_t i = nat (i mod 2 ^ 64)"

definition wrap_int :: "int \<Rightarrow> int" where
  "wrap_int x = (let r = x mod 2 ^ 32 in if r < 2 ^ 31 then r else r - 2 ^ 32)"

definition to_int :: "nat \<Rightarrow> int" where
  "to_int n = wrap_int (int n)"

text \<open>Addition and subtraction of two \<open>size_t\<close> values, modulo \<open>2 ^ 64\<close>.\<close>

definition add_size_t :: "nat \<Rightarrow> nat \<Rightarrow> nat" where
  "add_size_t a b = (a + b) mod 2 ^ 64"

definition sub_size_t :: "nat \<Rightarrow> nat \<Rightarrow> nat" where
  "sub_size_t a b = (a + (2 ^ 64 - b mod 2 ^ 64)) mod 2 ^ 64"

datatype error = Exit_1 | Division_By_Zero

section \<open>Shared-memory implementation: the partitioner\<close>

text \<open>
  The two allocations a worker can point at: the matrix handed to
  \<open>relax_matrix_parallel\<close> and the copy it makes with \<open>matrix_init\<close>.
\<close>

datatype bufid = Buf_Matrix | Buf_New_Matrix

record thread_args =
  thread_id :: nat
  start_i :: nat
  start_j :: nat
  cells :: int
  original_matrix :: bufid
  new_matrix :: bufid

text \<open>
  One step of the row-major walk that both \<open>determine_thread_data\<close> and \<open>relax_cells\<close>
  perform: \<open>j++\<close>, and at \<open>j == size - 1\<close> wrap to column 1 of the next row.
\<close>

definition next_cell :: "nat \<Rightarrow> nat \<times> nat \<Rightarrow> nat \<times> nat" where
  "next_cell sz p = (let i = fst p; j = snd p + 1 in if j = sz - 1 then (i + 1, 1) else (i, j))"

text \<open>The inner \<open>while (cells_remaining > 0)\<close> loop of \<open>determine_thread_data\<close>.\<close>

fun advance :: "nat \<Rightarrow> nat \<Rightarrow> nat \<times> nat \<Rightarrow> nat \<times> nat" where
  "advance sz 0 p = p"
| "advance sz (Suc n) p = advance sz n (next_cell sz p)"

text \<open>
  The \<open>for\<close> loop of \<open>determine_thread_data\<close>; the first argument counts the iterations still
  to run, \<open>i\<close> is the loop variable.
\<close>

fun thread_loop :: "nat \<Rightarrow> int \<Rightarrow> nat \<Rightarrow> nat \<Rightarrow> int \<Rightarrow> nat \<times> nat \<Rightarrow> thread_args list" where
  "thread_loop sz cells_per_thread 0 i remainder p = []"
| "thread_loop sz cells_per_thread (Suc n) i remainder p =
     (let c = (if remainder > 0 then wrap_int (cells_per_thread + 1) else cells_per_thread);
          remainder' = (if remainder > 0 then remainder - 1 else remainder);
          t = \<lparr>thread_id = i, start_i = fst p, start_j = snd p, cells = c,
               original_matrix = Buf_Matrix, new_matrix = Buf_New_Matrix\<rparr>
      in t # thread_loop sz cells_per_thread n (i + 1) remainder' (advance sz (nat c) p))"

definition determine_thread_data :: "nat \<Rightarrow> int \<Rightarrow> error + thread_args list" where
  "determine_thread_data sz num_threads =
     (let inner_cells = (sz - 2) * (sz - 2) in
      if to_size_t num_threads = 0 then Inl Division_By_Zero
      else let cells_per_thread = to_int (inner_cells div to_size_t num_threads) in
        if to_size_t cells_per_thread = 0 then Inl Division_By_Zero
        else let remainder = to_int (inner_cells mod to_size_t cells_per_thread) in
          Inr (thread_loop sz cells_per_thread (nat num_threads) 0 remainder (1, 1)))"

section \<open>Shared-memory implementation: workers and coordinator\<close>

type_synonym 'a grid = "'a list list"

text \<open>
  The globals and the two heap matrices. \<open>thread_data\<close> is the array of \<open>thread_args\<close>, whose
  matrix pointers each worker swaps for itself.
\<close>

record 'a shared =
  matrix_buf :: "'a grid"
  new_matrix_buf :: "'a grid"
  THREAD_PRECISION_REACHED :: "bool list"
  PRECISION_REACHED :: bool
  thread_data :: "thread_args list"

definition buf :: "'a shared \<Rightarrow> bufid \<Rightarrow> 'a grid" where
  "buf st b = (case b of Buf_Matrix \<Rightarrow> matrix_buf st | Buf_New_Matrix \<Rightarrow> new_matrix_buf st)"

definition grid_write :: "nat \<Rightarrow> nat \<Rightarrow> 'a \<Rightarrow> 'a grid \<Rightarrow> 'a grid" where
  "grid_write i j v g = g[i := (g ! i)[j := v]]"

definition buf_write :: "bufid \<Rightarrow> nat \<Rightarrow> nat \<Rightarrow> 'a \<Rightarrow> 'a shared \<Rightarrow> 'a shared" where
  "buf_write b i j v st =
     (case b of Buf_Matrix \<Rightarrow> st\<lparr>matrix_buf := grid_write i j v (matrix_buf st)\<rparr>
      | Buf_New_Matrix \<Rightarrow> st\<lparr>new_matrix_buf := grid_write i j v (new_matrix_buf st)\<rparr>)"

text \<open>
  The \<open>for (c = 0; c < cells; c++)\<close> loop of \<open>relax_cells\<close>; the fourth argument counts the
  iterations still to run. Each iteration reads through the worker's \<open>original_matrix\<close>
  pointer and writes through its \<open>new_matrix\<close> pointer. The theorems on this loop are
  stated for runs that stay inside the matrices, and every run that
  \<open>determine_thread_data\<close> computes is shown to do so.
\<close>

fun relax_cells_loop ::
  "nat \<Rightarrow> 'a::linordered_field \<Rightarrow> thread_args \<Rightarrow> nat \<Rightarrow> nat \<times> nat \<Rightarrow> 'a shared \<Rightarrow> 'a shared" where
  "relax_cells_loop sz precision t 0 p st = st"
| "relax_cells_loop sz precision t (Suc c) p st =
     (let i = fst p; j = snd p;
          new_value = (buf st (original_matrix t) ! i ! (j - 1) +
                       buf st (original_matrix t) ! i ! (j + 1) +
                       buf st (original_matrix t) ! (i - 1) ! j +
                       buf st (original_matrix t) ! (i + 1) ! j) / 4;
          st1 = buf_write (new_matrix t) i j new_value st;
          difference = \<bar>new_value - buf st1 (original_matrix t) ! i ! j\<bar>;
          st2 = (if difference > precision
                 then st1\<lparr>THREAD_PRECISION_REACHED :=
                            (THREAD_PRECISION_REACHED st1)[thread_id t := False]\<rparr>
                 else st1)
      in relax_cells_loop sz precision t c (next_cell sz p) st2)"

text \<open>One pass of a worker, from the top of its \<open>while (true)\<close> body to the first barrier.\<close>

definition relax_cells :: "nat \<Rightarrow> 'a::linordered_field \<Rightarrow> thread_args \<Rightarrow> 'a shared \<Rightarrow> 'a shared" where
  "relax_cells sz precision t st =
     relax_cells_loop sz precision t (nat (cells t)) (start_i t, start_j t) st"

text \<open>
  The workers run concurrently between two barriers. Within a pass each worker writes only
  through its \<open>new_matrix\<close> pointer and its own flag, so the passes are composed one worker
  after the other, in the order of the \<open>thread_data\<close> array.
\<close>

definition compute_phase :: "nat \<Rightarrow> 'a::linordered_field \<Rightarrow> 'a shared \<Rightarrow> 'a shared" where
  "compute_phase sz precision st = foldl (\<lambda>s t. relax_cells sz precision t s) st (thread_data st)"

text \<open>The flag-combining \<open>for\<close> loop of the coordinator, with its \<open>break\<close>.\<close>

fun combine_flags :: "bool list \<Rightarrow> bool \<Rightarrow> bool" where
  "combine_flags [] precision_reached = precision_reached"
| "combine_flags (f # fs) precision_reached = (if f = False then False else combine_flags fs True)"

text \<open>What a worker does after the second barrier when \<open>PRECISION_REACHED\<close> is false.\<close>

definition swap_matrices :: "thread_args \<Rightarrow> thread_args" where
  "swap_matrices t = t\<lparr>original_matrix := new_matrix t, new_matrix := original_matrix t\<rparr>"

text \<open>
  The \<open>while (true)\<close> loop of \<open>relax_matrix_parallel\<close>. One unfolding is one iteration: the
  workers' pass, the first barrier, the combination of the flags, and then either the exit or
  the reset of the flags, the second barrier and the workers' swap. A run that never
  converges has the value \<open>None\<close>.
\<close>

partial_function (option) coordinator_loop ::
  "nat \<Rightarrow> 'a::linordered_field \<Rightarrow> 'a shared \<Rightarrow> 'a shared option" where
  "coordinator_loop sz precision st =
     (let st1 = compute_phase sz precision st;
          st2 = st1\<lparr>PRECISION_REACHED :=
                     combine_flags (THREAD_PRECISION_REACHED st1) (PRECISION_REACHED st1)\<rparr>
      in if PRECISION_REACHED st2 then Some st2
         else coordinator_loop sz precision
                (st2\<lparr>THREAD_PRECISION_REACHED := map (\<lambda>_. True) (THREAD_PRECISION_REACHED st2),
                     thread_data := map swap_matrices (thread_data st2)\<rparr>))"

declare coordinator_loop.simps [code]

text \<open>
  \<open>matrix_init\<close> of the shared-memory program. \<open>rnd k\<close> is the value of
  \<open>(double)rand() / (double)RAND_MAX\<close> at the \<open>k\<close>-th call of \<open>rand\<close> after \<open>srand(42)\<close>; the
  counter is threaded through the two loops. The second component of the state is
  \<open>shared_args.matrix\<close>: \<open>None\<close> while the pointer is \<open>NULL\<close>. On the first call each row of
  \<open>shared_args.matrix\<close> is allocated inside the loop (the test of the fresh row pointer
  against \<open>NULL\<close> is taken to succeed).
\<close>

fun init_cells :: "(nat \<Rightarrow> 'a::linordered_field) \<Rightarrow> nat \<Rightarrow> nat list \<Rightarrow> nat \<Rightarrow> 'a list \<times> nat" where
  "init_cells rnd i [] k = ([], k)"
| "init_cells rnd i (j # js) k =
     (if i = 0 \<or> j = 0
      then (let (row, k') = init_cells rnd i js k in (1 # row, k'))
      else (let (row, k') = init_cells rnd i js (k + 1) in (rnd k # row, k')))"

fun init_rows :: "(nat \<Rightarrow> 'a::linordered_field) \<Rightarrow> nat \<Rightarrow> nat list \<Rightarrow> nat \<Rightarrow> 'a grid" where
  "init_rows rnd sz [] k = []"
| "init_rows rnd sz (i # is) k =
     (let (row, k') = init_cells rnd i [0..<sz] k in row # init_rows rnd sz is k')"

definition matrix_init ::
  "(nat \<Rightarrow> 'a::linordered_field) \<Rightarrow> nat \<Rightarrow> 'a grid option \<Rightarrow> 'a grid \<times> 'a grid option" where
  "matrix_init rnd sz saved =
     (case saved of
        Some m \<Rightarrow> (map (\<lambda>i. map (\<lambda>j. m ! i ! j) [0..<sz]) [0..<sz], Some m)
      | None \<Rightarrow> (let result = init_rows rnd sz [0..<sz] 0 in (result, Some result)))"

text \<open>
  \<open>relax_matrix_parallel\<close> of the shared-memory program: the copy, the thread data, the loop,
  and the return of the pointer it was given.
\<close>

definition relax_matrix_parallel ::
  "(nat \<Rightarrow> 'a::linordered_field) \<Rightarrow> nat \<Rightarrow> 'a \<Rightarrow> int \<Rightarrow> bool list \<Rightarrow> 'a grid option \<Rightarrow> 'a grid
     \<Rightarrow> (error + 'a grid) option" where
  "relax_matrix_parallel rnd sz precision num_threads flags saved matrix =
     (let new_matrix = fst (matrix_init rnd sz saved) in
      case determine_thread_data sz num_threads of
        Inl e \<Rightarrow> Some (Inl e)
      | Inr td \<Rightarrow>
          map_option (\<lambda>st. Inr (matrix_buf st))
            (coordinator_loop sz precision
               \<lparr>matrix_buf = matrix, new_matrix_buf = new_matrix,
                THREAD_PRECISION_REACHED = flags, PRECISION_REACHED = False,
                thread_data = td\<rparr>))"

text \<open>
  \<open>main\<close> of the shared-memory program after \<open>atoi\<close> and \<open>atof\<close>: the validation, the clamp of
  the thread count, the flags, the first \<open>matrix_init\<close> and the run.
\<close>

definition main_shared ::
  "(nat \<Rightarrow> 'a::linordered_field) \<Rightarrow> nat \<Rightarrow> 'a \<Rightarrow> int \<Rightarrow> (error + 'a grid) option" where
  "main_shared rnd sz precision num_threads_arg =
     (if sz < 2 \<or> sz > 10000000 then Some (Inl Exit_1)
      else if precision \<le> 0 then Some (Inl Exit_1)
      else if num_threads_arg < 1 then Some (Inl Exit_1)
      else
        let num_threads =
              (if to_size_t num_threads_arg > (sz - 2) * (sz - 2)
               then to_int ((sz - 2) * (sz - 2)) else num_threads_arg);
            flags = replicate (nat num_threads) True;
            (a, saved) = matrix_init rnd sz None
        in relax_matrix_parallel rnd sz precision num_threads flags saved a)"

section \<open>Distributed implementation\<close>

text \<open>
  The matrix is one flat row-major buffer. \<open>matrix_init\<close> of the distributed program starts
  from the zeros of \<open>calloc\<close> and sets the four edges in one loop over all indices.
\<close>

definition matrix_init_mpi :: "nat \<Rightarrow> 'a::linordered_field list" where
  "matrix_init_mpi sz =
     fold (\<lambda>i result.
             if i mod sz = 0 \<or> i < sz \<or> i \<ge> sz * (sz - 1) \<or> i mod sz = sz - 1
             then result[i := 1] else result)
          [0..<sz * sz] (replicate (sz * sz) 0)"

text \<open>
  The four \<open>int\<close> arrays of \<open>relax_matrix_parallel\<close>, kept as one record per process, and the
  loop that fills them. The first argument of the loop counts the processes still to
  visit; \<open>rows_remainder\<close> and \<open>scatter_offset\<close> are the two \<open>size_t\<close> variables the loop updates.
  \<open>num_processes\<close> comes from \<open>MPI_Comm_size\<close> and is at least 1.
\<close>

record chunk =
  scatter_displ :: int
  scatter_count :: int
  gather_count :: int
  gather_displ :: int

fun chunk_loop :: "nat \<Rightarrow> nat \<Rightarrow> nat \<Rightarrow> nat \<Rightarrow> nat \<Rightarrow> chunk list" where
  "chunk_loop sz rows_per_process 0 rows_remainder scatter_offset = []"
| "chunk_loop sz rows_per_process (Suc n) rows_remainder scatter_offset =
     (let displ = to_int scatter_offset;
          count0 = to_int ((rows_per_process + 2) * sz);
          count = (if rows_remainder > 0 then to_int (add_size_t (to_size_t count0) sz) else count0);
          rows_remainder' = (if rows_remainder > 0 then rows_remainder - 1 else rows_remainder);
          scatter_offset' = add_size_t scatter_offset (sub_size_t (to_size_t count) (2 * sz));
          c = \<lparr>scatter_displ = displ, scatter_count = count,
               gather_count = to_int (sub_size_t (to_size_t count) (2 * sz)),
               gather_displ = to_int (add_size_t (to_size_t displ) sz)\<rparr>
      in c # chunk_loop sz rows_per_process n rows_remainder' scatter_offset')"

definition chunks :: "nat \<Rightarrow> int \<Rightarrow> chunk list" where
  "chunks sz num_processes =
     chunk_loop sz ((sz - 2) div to_size_t num_processes) (nat num_processes)
       ((sz - 2) mod to_size_t num_processes) 0"

text \<open>
  The loop of the distributed \<open>relax_cells\<close>, from \<open>input_index = start\<close> to \<open>end\<close>; the fourth
  argument counts the iterations still to run, the last two are the result buffer and
  \<open>*precision_reached\<close>.
\<close>

fun relax_loop_mpi ::
  "nat \<Rightarrow> 'a::linordered_field \<Rightarrow> 'a list \<Rightarrow> nat \<Rightarrow> nat \<Rightarrow> nat \<Rightarrow> 'a list \<Rightarrow> bool \<Rightarrow> 'a list \<times> bool" where
  "relax_loop_mpi sz precision input 0 input_index result_index result precision_reached =
     (result, precision_reached)"
| "relax_loop_mpi sz precision input (Suc n) input_index result_index result precision_reached =
     (if input_index mod sz = 0 \<or> (input_index + 1) mod sz = 0
      then relax_loop_mpi sz precision input n (input_index + 1) (result_index + 1)
             (result[result_index := input ! input_index]) precision_reached
      else
        let new_value = (input ! (input_index - sz) + input ! (input_index + sz) +
                         input ! (input_index - 1) + input ! (input_index + 1)) / 4
        in relax_loop_mpi sz precision input n (input_index + 1) (result_index + 1)
             (result[result_index := new_value])
             (if precision_reached \<and> \<bar>new_value - input ! input_index\<bar> > precision
              then False else precision_reached))"

definition relax_cells_mpi ::
  "'a::linordered_field list \<Rightarrow> 'a list \<Rightarrow> nat \<Rightarrow> nat \<Rightarrow> 'a \<Rightarrow> 'a list \<times> bool" where
  "relax_cells_mpi input result sz input_size precision =
     (let start = sz; end_index = to_int (sub_size_t (sub_size_t input_size sz) 1)
      in relax_loop_mpi sz precision input (nat (end_index + 1 - int start)) start 0 result True)"

text \<open>
  The three collectives as the root process sees them. \<open>MPI_Scatterv\<close> hands process \<open>c\<close> the
  \<open>scatter_count\<close> elements from \<open>scatter_displ\<close> on; \<open>MPI_Gatherv\<close> stores each receive buffer
  at its \<open>gather_displ\<close>; \<open>MPI_Allreduce\<close> with \<open>MPI_LAND\<close> is the conjunction of the local
  flags. The receive buffer of a process has \<open>gather_count\<close> cells, all of which the
  pass overwrites. These definitions describe the collectives for counts and displacements
  that are not negative and lie inside the matrix, which is the case whenever
  \<open>size * size\<close> fits an \<open>int\<close>; the theorems on the distributed loop carry that bound.
\<close>

definition scatterv :: "'a list \<Rightarrow> chunk \<Rightarrow> 'a list" where
  "scatterv matrix c = take (nat (scatter_count c)) (drop (nat (scatter_displ c)) matrix)"

definition write_at :: "'a list \<Rightarrow> nat \<Rightarrow> 'a list \<Rightarrow> 'a list" where
  "write_at matrix d xs = take d matrix @ xs @ drop (d + length xs) matrix"

definition gatherv :: "'a list \<Rightarrow> (chunk \<times> 'a list) list \<Rightarrow> 'a list" where
  "gatherv matrix recvs = foldl (\<lambda>m (c, r). write_at m (nat (gather_displ c)) r) matrix recvs"

definition process_pass :: "nat \<Rightarrow> 'a::linordered_field \<Rightarrow> 'a list \<Rightarrow> chunk \<Rightarrow> 'a list \<times> bool" where
  "process_pass sz precision matrix c =
     relax_cells_mpi (scatterv matrix c) (replicate (nat (gather_count c)) 0) sz
       (to_size_t (scatter_count c)) precision"

definition mpi_iteration ::
  "nat \<Rightarrow> 'a::linordered_field \<Rightarrow> chunk list \<Rightarrow> 'a list \<Rightarrow> 'a list \<times> bool" where
  "mpi_iteration sz precision cs matrix =
     (let outs = map (process_pass sz precision matrix) cs;
          global_precision = list_all snd outs
      in (gatherv matrix (zip cs (map fst outs)), global_precision))"

text \<open>The \<open>while (!global_precision)\<close> loop; \<open>global_precision\<close> is false on entry.\<close>

partial_function (option) mpi_loop ::
  "nat \<Rightarrow> 'a::linordered_field \<Rightarrow> chunk list \<Rightarrow> 'a list \<Rightarrow> 'a list option" where
  "mpi_loop sz precision cs matrix =
     (let r = mpi_iteration sz precision cs matrix
      in if snd r then Some (fst r) else mpi_loop sz precision cs (fst r))"

declare mpi_loop.simps [code]

definition relax_matrix_parallel_mpi ::
  "'a::linordered_field list \<Rightarrow> nat \<Rightarrow> 'a \<Rightarrow> int \<Rightarrow> 'a list option" where
  "relax_matrix_parallel_mpi matrix sz precision num_processes =
     mpi_loop sz precision (chunks sz num_processes) matrix"

text \<open>\<open>main\<close> of the distributed program after \<open>atoi\<close> and \<open>atof\<close>.\<close>

definition main_mpi :: "nat \<Rightarrow> 'a::linordered_field \<Rightarrow> int \<Rightarrow> (error + 'a list) option" where
  "main_mpi sz precision num_processes =
     (if sz < 2 \<or> sz > 10000000 then Some (Inl Exit_1)
      else if precision \<le> 0 then Some (Inl Exit_1)
      else if to_size_t num_processes > sz - 2 then Some (Inl Exit_1)
      else map_option Inr
             (relax_matrix_parallel_mpi (matrix_init_mpi sz) sz precision num_processes))"

section \<open>Vocabulary of the properties\<close>

text \<open>
  The formula of the specification for a new cell value, \<open>(up + down + left + right) / 4\<close>, on
  a grid of rows and on a flat row-major buffer of row length \<open>sz\<close>. The programs add the
  neighbours in their own order; the theorems relate the two.
\<close>

definition average_of_neighbours :: "'a::linordered_field grid \<Rightarrow> nat \<times> nat \<Rightarrow> 'a" where
  "average_of_neighbours g q =
     (g ! (fst q - 1) ! snd q + g ! (fst q + 1) ! snd q +
      g ! fst q ! (snd q - 1) + g ! fst q ! (snd q + 1)) / 4"


text \<open>
  A cell whose new value differs from its current value by more than the precision.
\<close>

definition exceeds :: "'a::linordered_field \<Rightarrow> 'a grid \<Rightarrow> nat \<times> nat \<Rightarrow> bool" where
  "exceeds precision g q \<longleftrightarrow> precision < \<bar>average_of_neighbours g q - g ! fst q ! snd q\<bar>"

text \<open>The interior positions a worker visits, in the order \<open>relax_cells\<close> visits them.\<close>

definition thread_cells :: "nat \<Rightarrow> thread_args \<Rightarrow> (nat \<times> nat) list" where
  "thread_cells sz t = map (\<lambda>c. advance sz c (start_i t, start_j t)) [0..<nat (cells t)]"




definition first_of :: "nat \<Rightarrow> nat \<Rightarrow> nat \<Rightarrow> nat" where
  "first_of base rem k = k * base + min k rem"







text \<open>
  A worker whose run of cells, counted row-major from its start, ends within the interior.
\<close>

definition interior_run :: "nat \<Rightarrow> thread_args \<Rightarrow> bool" where
  "interior_run sz t \<longleftrightarrow>
     cells t \<le> 0 \<or>
     (1 \<le> start_i t \<and> 1 \<le> start_j t \<and> start_j t \<le> sz - 2 \<and>
      (start_i t - 1) * (sz - 2) + (start_j t - 1) + nat (cells t) \<le> (sz - 2) * (sz - 2))"

text \<open>All workers read through the same pointer and write through the other one.\<close>

definition aligned :: "bufid \<Rightarrow> bufid \<Rightarrow> thread_args list \<Rightarrow> bool" where
  "aligned b b' ts \<longleftrightarrow> b \<noteq> b' \<and> (\<forall>t\<in>set ts. original_matrix t = b \<and> new_matrix t = b')"


text \<open>Writing the average of the neighbours in \<open>g\<close> at each position of a list, in order.\<close>

definition write_cells :: "'a::linordered_field grid \<Rightarrow> (nat \<times> nat) list \<Rightarrow> 'a grid \<Rightarrow> 'a grid" where
  "write_cells g qs g' =
     foldl (\<lambda>h q. grid_write (fst q) (snd q) (average_of_neighbours g q) h) g' qs"

text \<open>The flags after the workers of a list have run, given who broke the precision.\<close>

definition lower_flags :: "(thread_args \<Rightarrow> bool) \<Rightarrow> bool list \<Rightarrow> thread_args list \<Rightarrow> bool list" where
  "lower_flags bad fl ts = foldl (\<lambda>fl t. if bad t then fl[thread_id t := False] else fl) fl ts"

text \<open>
  A sample of \<open>(double)rand() / (double)RAND_MAX\<close> used where a run is evaluated: the first
  call yields one half, every later call one quarter.
\<close>

definition example_rnd :: "nat \<Rightarrow> rat" where
  "example_rnd k = (if k = 0 then 1 / 2 else 1 / 4)"

section \<open>Conversions inside their range, and unfolding of the loops at numerals\<close>

lemma to_size_t_nonneg: "0 \<le> i \<Longrightarrow> i < 2 ^ 64 \<Longrightarrow> to_size_t i = nat i"
  by (simp add: to_size_t_def)

lemma wrap_int_id: "- (2 ^ 31) \<le> x \<Longrightarrow> x < 2 ^ 31 \<Longrightarrow> wrap_int x = x"
proof -
  assume a: "- (2 ^ 31) \<le> x" "x < 2 ^ 31"
  show ?thesis
  proof (cases "0 \<le> x")
    case True
    then have "x mod 2 ^ 32 = x" using a by simp
    then show ?thesis using a by (simp add: wrap_int_def)
  next
    case False
    then have "(x + 2 ^ 32) mod 2 ^ 32 = x + 2 ^ 32"
      using a by (intro mod_pos_pos_trivial) auto
    then have "x mod 2 ^ 32 = x + 2 ^ 32" by simp
    then show ?thesis using a False by (simp add: wrap_int_def)
  qed
qed

lemma to_int_id: "n < 2 ^ 31 \<Longrightarrow> to_int n = int n"
  unfolding to_int_def by (rule wrap_int_id) auto

lemma to_size_t_int: "n < 2 ^ 64 \<Longrightarrow> to_size_t (int n) = n"
proof -
  assume "n < 2 ^ 64"
  then have "int n mod 2 ^ 64 = int n" by simp
  then show ?thesis by (simp only: to_size_t_def nat_int)
qed

lemmas advance_numeral =
  advance.simps(2)[of _ "pred_numeral k", folded numeral_eq_Suc] for k
lemmas thread_loop_numeral =
  thread_loop.simps(2)[of _ _ "pred_numeral k", folded numeral_eq_Suc] for k
lemmas relax_cells_loop_numeral =
  relax_cells_loop.simps(2)[of _ _ _ "pred_numeral k", folded numeral_eq_Suc] for k
lemmas chunk_loop_numeral =
  chunk_loop.simps(2)[of _ _ "pred_numeral k", folded numeral_eq_Suc] for k
lemmas relax_loop_mpi_numeral =
  relax_loop_mpi.simps(2)[of _ _ _ "pred_numeral k", folded numeral_eq_Suc] for k

lemmas eval_conv = to_size_t_nonneg to_int_id wrap_int_id advance_numeral thread_loop_numeral
  relax_cells_loop_numeral chunk_loop_numeral relax_loop_mpi_numeral next_cell_def Let_def

section \<open>The cell-based partitioner\<close>

text \<open>
  C3. The claim: each of the \<open>numWorkers\<close> workers gets a contiguous run of base length
  \<open>total / numWorkers\<close>, and exactly the first \<open>total mod numWorkers\<close> workers get one extra
  cell. \<open>determine_thread_data\<close> computes the remainder as \<open>inner_cells % cells_per_thread\<close>
  instead. On a 4 x 4 grid with 3 threads there are 4 interior cells, the base length is 1
  and \<open>4 mod 3 = 1\<close>, so the first worker should receive 2 cells; the code computes the
  remainder \<open>4 mod 1 = 0\<close> and gives every worker a single cell.
\<close>

theorem determine_thread_data_4_3:
  "determine_thread_data 4 3 = Inr
     [\<lparr>thread_id = 0, start_i = 1, start_j = 1, cells = 1,
       original_matrix = Buf_Matrix, new_matrix = Buf_New_Matrix\<rparr>,
      \<lparr>thread_id = 1, start_i = 1, start_j = 2, cells = 1,
       original_matrix = Buf_Matrix, new_matrix = Buf_New_Matrix\<rparr>,
      \<lparr>thread_id = 2, start_i = 2, start_j = 1, cells = 1,
       original_matrix = Buf_Matrix, new_matrix = Buf_New_Matrix\<rparr>]"
  by (simp add: determine_thread_data_def eval_conv)

text \<open>
  C4. The claim: the partitions cover the interior exactly once. With the same input as
  above, the three workers of the shared-memory program visit \<open>(1,1)\<close>, \<open>(1,2)\<close> and \<open>(2,1)\<close>;
  the interior cell \<open>(2,2)\<close> belongs to no worker.
\<close>

theorem thread_cells_4_3_gap:
  "(case determine_thread_data 4 3 of Inl e \<Rightarrow> []
    | Inr td \<Rightarrow> concat (map (thread_cells 4) td)) = [(1, 1), (1, 2), (2, 1)]"
  by (simp add: determine_thread_data_def eval_conv thread_cells_def)

section \<open>Over-provisioned workers\<close>

lemma determine_thread_data_no_exit: "determine_thread_data sz n \<noteq> Inl Exit_1"
  by (simp add: determine_thread_data_def Let_def)

lemma relax_matrix_parallel_no_exit:
  "relax_matrix_parallel rnd sz precision n flags saved m \<noteq> Some (Inl Exit_1)"
  using determine_thread_data_no_exit [of sz n]
  by (auto simp: relax_matrix_parallel_def Let_def split: sum.splits)

text \<open>
  C2. The claim: a worker count above the number of usable work units is clamped and the run
  proceeds, in both programs. The distributed \<open>main\<close> does not clamp: with more processes
  than interior rows it prints a request to reduce the number of processes and returns 1.
  On a 4 x 4 grid (2 interior rows) with 3 processes the run is rejected.
\<close>

theorem main_mpi_rejects_counterexample: "main_mpi 4 (1 / 10 :: rat) 3 = Some (Inl Exit_1)"
  by (simp add: main_mpi_def eval_conv)

text \<open>
  C2, as the programs behave: for a valid size of at least 3 and a positive precision, the
  shared-memory \<open>main\<close> given more threads than the \<open>(size - 2) * (size - 2)\<close> interior cells
  runs exactly as if it had been given that many threads, and does not exit with status 1;
  the distributed \<open>main\<close> given more processes than the \<open>size - 2\<close> interior rows exits with
  status 1.
\<close>

theorem over_provisioned_workers:
  fixes precision :: "'a::linordered_field"
  assumes "3 \<le> sz" and "sz \<le> 10000000" and "0 < precision"
  shows "(int ((sz - 2) * (sz - 2)) < num_threads \<and> num_threads < 2 ^ 31 \<longrightarrow>
            main_shared rnd sz precision num_threads
              = main_shared rnd sz precision (int ((sz - 2) * (sz - 2))) \<and>
            main_shared rnd sz precision num_threads \<noteq> Some (Inl Exit_1)) \<and>
         (int (sz - 2) < num_processes \<and> num_processes < 2 ^ 31 \<longrightarrow>
            main_mpi sz precision num_processes = Some (Inl Exit_1))"
proof (intro conjI impI)
  assume h: "int ((sz - 2) * (sz - 2)) < num_threads \<and> num_threads < 2 ^ 31"
  let ?inner = "(sz - 2) * (sz - 2)"
  have pos: "1 \<le> ?inner" using assms(1) by (simp add: Suc_le_eq)
  have "int ?inner < 2 ^ 31" using h by linarith
  then have lt: "?inner < 2 ^ 31" by (simp del: of_nat_mult)
  have "0 \<le> int ?inner" by (rule of_nat_0_le_iff)
  then have nn: "0 \<le> num_threads" using h by linarith
  have s1: "to_size_t num_threads = nat num_threads"
    using h nn by (intro to_size_t_nonneg) auto
  have s2: "to_size_t (int ?inner) = ?inner"
    using lt by (intro to_size_t_int) simp
  have s3: "to_int ?inner = int ?inner" using lt by (rule to_int_id)
  have gt: "?inner < nat num_threads" using h by linarith
  have nt1: "\<not> num_threads < 1" using h pos by linarith
  have in1: "\<not> int ?inner < 1" using pos by linarith
  show eq: "main_shared rnd sz precision num_threads
              = main_shared rnd sz precision (int ?inner)"
    using assms gt nt1 in1 unfolding main_shared_def s1 s2 s3 by (simp del: of_nat_mult)
  have "main_shared rnd sz precision (int ?inner) \<noteq> Some (Inl Exit_1)"
    using assms in1 unfolding main_shared_def s2
    by (simp add: relax_matrix_parallel_no_exit del: of_nat_mult split: prod.splits)
  then show "main_shared rnd sz precision num_threads \<noteq> Some (Inl Exit_1)"
    using eq by simp
next
  assume h: "int (sz - 2) < num_processes \<and> num_processes < 2 ^ 31"
  then have "to_size_t num_processes = nat num_processes"
    by (intro to_size_t_nonneg) auto
  moreover have "sz - 2 < nat num_processes" using h by linarith
  ultimately show "main_mpi sz precision num_processes = Some (Inl Exit_1)"
    using assms by (simp add: main_mpi_def)
qed

theorem over_provisioned_workers_witness:
  "main_shared example_rnd 4 (1 / 10) 7 = main_shared example_rnd 4 (1 / 10) 4 \<and>
   main_shared example_rnd 4 (1 / 10) 7 \<noteq> Some (Inl Exit_1) \<and>
   main_mpi 4 (1 / 10 :: rat) 3 = Some (Inl Exit_1)"
proof -
  have "(3::nat) \<le> 4" and "(4::nat) \<le> 10000000" and "(0::rat) < 1 / 10" by simp_all
  from over_provisioned_workers [OF this, of 7 example_rnd 3] show ?thesis by auto
qed


section \<open>A grid of dimension 2\<close>





section \<open>The pointer returned by the shared-memory coordinator\<close>

text \<open>
  C1. The claim: when the loop converges, the matrix returned by the shared-memory
  \<open>relax_matrix_parallel\<close> holds the values written in the final iteration, whatever the
  number of iterations. The workers write the first, third, fifth, ... pass into the copy
  and the coordinator always returns the pointer it was given. On a 3 x 3 grid with one
  thread and precision 1 the single interior cell starts at 1/2, the first pass writes
  \<open>(1 + 1/4 + 1 + 1/4) / 4 = 5/8\<close> into the copy and converges, and the matrix returned
  still holds 1/2: the loop ends in the state shown, and \<open>main\<close> returns its \<open>matrix_buf\<close>.
\<close>

theorem relax_matrix_parallel_single_pass:
  "coordinator_loop 3 (1 :: rat)
     \<lparr>matrix_buf = [[1, 1, 1], [1, 1 / 2, 1 / 4], [1, 1 / 4, 1 / 4]],
      new_matrix_buf = [[1, 1, 1], [1, 1 / 2, 1 / 4], [1, 1 / 4, 1 / 4]],
      THREAD_PRECISION_REACHED = [True], PRECISION_REACHED = False,
      thread_data = [\<lparr>thread_id = 0, start_i = 1, start_j = 1, cells = 1,
                      original_matrix = Buf_Matrix, new_matrix = Buf_New_Matrix\<rparr>]\<rparr>
   = Some
     \<lparr>matrix_buf = [[1, 1, 1], [1, 1 / 2, 1 / 4], [1, 1 / 4, 1 / 4]],
      new_matrix_buf = [[1, 1, 1], [1, 5 / 8, 1 / 4], [1, 1 / 4, 1 / 4]],
      THREAD_PRECISION_REACHED = [True], PRECISION_REACHED = True,
      thread_data = [\<lparr>thread_id = 0, start_i = 1, start_j = 1, cells = 1,
                      original_matrix = Buf_Matrix, new_matrix = Buf_New_Matrix\<rparr>]\<rparr> \<and>
   main_shared example_rnd 3 1 1 = Some (Inr [[1, 1, 1], [1, 1 / 2, 1 / 4], [1, 1 / 4, 1 / 4]])"
proof
  show "coordinator_loop 3 (1 :: rat)
     \<lparr>matrix_buf = [[1, 1, 1], [1, 1 / 2, 1 / 4], [1, 1 / 4, 1 / 4]],
      new_matrix_buf = [[1, 1, 1], [1, 1 / 2, 1 / 4], [1, 1 / 4, 1 / 4]],
      THREAD_PRECISION_REACHED = [True], PRECISION_REACHED = False,
      thread_data = [\<lparr>thread_id = 0, start_i = 1, start_j = 1, cells = 1,
                      original_matrix = Buf_Matrix, new_matrix = Buf_New_Matrix\<rparr>]\<rparr>
   = Some
     \<lparr>matrix_buf = [[1, 1, 1], [1, 1 / 2, 1 / 4], [1, 1 / 4, 1 / 4]],
      new_matrix_buf = [[1, 1, 1], [1, 5 / 8, 1 / 4], [1, 1 / 4, 1 / 4]],
      THREAD_PRECISION_REACHED = [True], PRECISION_REACHED = True,
      thread_data = [\<lparr>thread_id = 0, start_i = 1, start_j = 1, cells = 1,
                      original_matrix = Buf_Matrix, new_matrix = Buf_New_Matrix\<rparr>]\<rparr>"
    by (subst coordinator_loop.simps)
       (simp add: compute_phase_def relax_cells_def buf_def buf_write_def grid_write_def eval_conv)
  then show "main_shared example_rnd 3 1 1
      = Some (Inr [[1, 1, 1], [1, 1 / 2, 1 / 4], [1, 1 / 4, 1 / 4]])"
    by (simp add: main_shared_def matrix_init_def upt_conv_Cons example_rnd_def
        relax_matrix_parallel_def determine_thread_data_def eval_conv)
qed

section \<open>The initializers\<close>

lemma length_fold_set_ones:
  "length (fold (\<lambda>i r. if P i then r[i := (1::'a::linordered_field)] else r) [0..<n] xs) = length xs"
  by (induction n) auto

lemma fold_set_ones:
  "k < length xs \<Longrightarrow>
   fold (\<lambda>i r. if P i then r[i := (1::'a::linordered_field)] else r) [0..<n] xs ! k
     = (if k < n \<and> P k then 1 else xs ! k)"
  by (induction n) (auto simp: nth_list_update length_fold_set_ones less_Suc_eq)

lemma matrix_init_mpi_nth:
  assumes "i < sz" and "j < sz"
  shows "(matrix_init_mpi sz :: 'a::linordered_field list) ! (i * sz + j)
           = (if i = 0 \<or> i = sz - 1 \<or> j = 0 \<or> j = sz - 1 then 1 else 0)"
proof -
  have "i * sz + j < (i + 1) * sz" using assms by simp
  also have "\<dots> \<le> sz * sz" using assms by (intro mult_le_mono1) simp
  finally have lt: "i * sz + j < sz * sz" .
  have m: "(i * sz + j) mod sz = j" using assms by simp
  have a: "i * sz + j < sz \<longleftrightarrow> i = 0" using assms by (cases i) auto
  have b: "sz * (sz - 1) \<le> i * sz + j \<longleftrightarrow> i = sz - 1"
  proof
    assume h: "sz * (sz - 1) \<le> i * sz + j"
    show "i = sz - 1"
    proof (rule ccontr)
      assume "i \<noteq> sz - 1"
      then have "i + 1 \<le> sz - 1" using assms by linarith
      then have "(i + 1) * sz \<le> (sz - 1) * sz" by (rule mult_le_mono1)
      then show False using h assms by (simp add: mult.commute)
    qed
  next
    assume "i = sz - 1" then show "sz * (sz - 1) \<le> i * sz + j" by (simp add: mult.commute)
  qed
  let ?k = "i * sz + j"
  have "(matrix_init_mpi sz :: 'a list) ! ?k
      = (if ?k < sz * sz \<and> (?k mod sz = 0 \<or> ?k < sz \<or> sz * (sz - 1) \<le> ?k \<or> ?k mod sz = sz - 1)
         then 1 else replicate (sz * sz) 0 ! ?k)"
    unfolding matrix_init_mpi_def by (rule fold_set_ones) (simp add: lt)
  also have "\<dots> = (if i = 0 \<or> i = sz - 1 \<or> j = 0 \<or> j = sz - 1 then 1 else 0)"
    unfolding m a b using lt by auto
  finally show ?thesis .
qed

lemma init_cells_from:
  "0 < i \<Longrightarrow> 0 < a \<Longrightarrow>
   init_cells rnd i [a..<b] k = (map (\<lambda>j. rnd (k + (j - a))) [a..<b], k + (b - a))"
proof (induction "b - a" arbitrary: a k)
  case 0
  then show ?case by simp
next
  case (Suc n)
  then have ab: "a < b" and n: "n = b - Suc a" by linarith+
  have "map (\<lambda>j. rnd (Suc k + (j - Suc a))) [Suc a..<b] = map (\<lambda>j. rnd (k + (j - a))) [Suc a..<b]"
    by (rule map_cong) (auto intro!: arg_cong [of _ _ rnd])
  then show ?case using Suc(1)[OF n, of "Suc k"] Suc(3,4) ab
    by (simp add: upt_conv_Cons)
qed

lemma init_cells_row:
  "0 < i \<Longrightarrow> 0 < sz \<Longrightarrow>
   init_cells rnd i [0..<sz] k = (1 # map (\<lambda>j. rnd (k + (j - 1))) [1..<sz], k + (sz - 1))"
  by (simp add: upt_conv_Cons [of 0] init_cells_from)

lemma init_cells_top: "init_cells rnd 0 js k = (map (\<lambda>_. 1) js, k)"
  by (induction js) auto

lemma init_rows_from:
  "0 < a \<Longrightarrow> 0 < sz \<Longrightarrow>
   init_rows rnd sz [a..<b] k
     = map (\<lambda>i. 1 # map (\<lambda>j. rnd (k + (i - a) * (sz - 1) + (j - 1))) [1..<sz]) [a..<b]"
proof (induction "b - a" arbitrary: a k)
  case 0
  then show ?case by simp
next
  case (Suc n)
  then have ab: "a < b" and n: "n = b - Suc a" by linarith+
  have "map (\<lambda>i. 1 # map (\<lambda>j. rnd (k + (sz - 1) + (i - Suc a) * (sz - 1) + (j - 1))) [1..<sz]) [Suc a..<b]
      = map (\<lambda>i. 1 # map (\<lambda>j. rnd (k + (i - a) * (sz - 1) + (j - 1))) [1..<sz]) [Suc a..<b]"
  proof (rule map_cong [OF refl])
    fix i assume "i \<in> set [Suc a..<b]"
    then have "i - a = Suc (i - Suc a)" by auto
    then show "1 # map (\<lambda>j. rnd (k + (sz - 1) + (i - Suc a) * (sz - 1) + (j - 1))) [1..<sz]
       = 1 # map (\<lambda>j. rnd (k + (i - a) * (sz - 1) + (j - 1))) [1..<sz]"
      by (simp add: add.assoc)
  qed
  then show ?case using Suc(1)[OF n, of "k + (sz - 1)"] Suc(3,4) ab
    by (simp add: upt_conv_Cons [of a] init_cells_row)
qed

lemma init_rows_all:
  assumes "0 < sz"
  shows "init_rows rnd sz [0..<sz] 0
     = map (\<lambda>i. map (\<lambda>j. if i = 0 \<or> j = 0 then 1 else rnd ((i - 1) * (sz - 1) + (j - 1))) [0..<sz]) [0..<sz]"
proof -
  have "init_rows rnd sz [0..<sz] 0
      = map (\<lambda>_. 1) [0..<sz] # map (\<lambda>i. 1 # map (\<lambda>j. rnd ((i - 1) * (sz - 1) + (j - 1))) [1..<sz]) [1..<sz]"
    using assms by (simp add: upt_conv_Cons [of 0] init_cells_top init_rows_from del: upt_Suc)
  also have "\<dots> = map (\<lambda>i. map (\<lambda>j. if i = 0 \<or> j = 0 then 1 else rnd ((i - 1) * (sz - 1) + (j - 1))) [0..<sz]) [0..<sz]"
    using assms by (simp add: upt_conv_Cons [of 0] del: upt_Suc)
  finally show ?thesis .
qed

lemma copy_grid:
  "length g = sz \<Longrightarrow> \<forall>i<sz. length (g ! i) = sz \<Longrightarrow>
   map (\<lambda>i. map (\<lambda>j. g ! i ! j) [0..<sz]) [0..<sz] = g"
  by (auto simp: list_eq_iff_nth_eq)

text \<open>
  C9. The distributed initializer returns \<open>size * size\<close> cells, 1 on the four edges and 0
  elsewhere. The first call of the shared-memory initializer returns a \<open>size\<close> x \<open>size\<close>
  grid with 1 in the top row and the left column and, in every other cell, the next value
  of the generator seeded with 42, in row-major order; a later call returns the same grid
  and leaves the saved matrix as it is, so every call of a run returns that grid.
\<close>

theorem initializers:
  "length (matrix_init_mpi sz :: 'a::linordered_field list) = sz * sz \<and>
   (\<forall>i<sz. \<forall>j<sz. (matrix_init_mpi sz :: 'a list) ! (i * sz + j)
        = (if i = 0 \<or> i = sz - 1 \<or> j = 0 \<or> j = sz - 1 then 1 else 0)) \<and>
   length (fst (matrix_init rnd sz None)) = sz \<and>
   (\<forall>i<sz. length (fst (matrix_init rnd sz None) ! i) = sz \<and>
      (\<forall>j<sz. fst (matrix_init rnd sz None) ! i ! j
         = (if i = 0 \<or> j = 0 then 1 else (rnd ((i - 1) * (sz - 1) + (j - 1)) :: 'a)))) \<and>
   matrix_init rnd sz (snd (matrix_init rnd sz None)) = matrix_init rnd sz None"
proof (cases "sz = 0")
  case True
  then show ?thesis by (simp add: matrix_init_mpi_def matrix_init_def)
next
  case False
  then have pos: "0 < sz" by simp
  have g: "fst (matrix_init rnd sz None)
     = map (\<lambda>i. map (\<lambda>j. if i = 0 \<or> j = 0 then 1 else rnd ((i - 1) * (sz - 1) + (j - 1))) [0..<sz]) [0..<sz]"
    by (simp add: matrix_init_def Let_def init_rows_all [OF pos])
  have s: "snd (matrix_init rnd sz None) = Some (fst (matrix_init rnd sz None))"
    by (simp add: matrix_init_def Let_def)
  have l: "length (fst (matrix_init rnd sz None)) = sz" by (simp add: g)
  have r: "\<forall>i<sz. length (fst (matrix_init rnd sz None) ! i) = sz" by (simp add: g)
  have again: "matrix_init rnd sz (snd (matrix_init rnd sz None)) = matrix_init rnd sz None"
    unfolding s by (simp add: matrix_init_def [of rnd sz "Some _"] copy_grid [OF l r] prod_eq_iff s)
  show ?thesis
    using l again by (simp add: matrix_init_mpi_nth) (simp add: g matrix_init_mpi_def length_fold_set_ones)
qed

theorem initializers_witness:
  "(matrix_init_mpi 3 :: rat list) ! (1 * 3 + 1) = 0 \<and> (matrix_init_mpi 3 :: rat list) ! (1 * 3 + 2) = 1 \<and>
   fst (matrix_init example_rnd 3 None) ! 0 ! 2 = 1 \<and>
   fst (matrix_init example_rnd 3 None) ! 1 ! 1 = 1 / 2 \<and>
   fst (matrix_init example_rnd 3 None) ! 2 ! 2 = 1 / 4"
proof -
  note t = initializers [of 3 example_rnd]
  have m: "i < 3 \<Longrightarrow> j < 3 \<Longrightarrow> (matrix_init_mpi 3 :: rat list) ! (i * 3 + j)
        = (if i = 0 \<or> i = 3 - 1 \<or> j = 0 \<or> j = 3 - 1 then 1 else 0)" for i j
    using t by blast
  have g: "i < 3 \<Longrightarrow> j < 3 \<Longrightarrow> fst (matrix_init example_rnd 3 None) ! i ! j
        = (if i = 0 \<or> j = 0 then 1 else example_rnd ((i - 1) * (3 - 1) + (j - 1)))" for i j
    using t by blast
  show ?thesis
    using m [of 1 1] m [of 1 2] g [of 0 2] g [of 1 1] g [of 2 2] by (simp add: example_rnd_def)
qed

section \<open>The shared-memory worker\<close>

subsection \<open>The row-major walk\<close>




lemma thread_cells_Suc:
  "map (\<lambda>k. advance sz k p) [0..<Suc c] = p # map (\<lambda>k. advance sz k (next_cell sz p)) [0..<c]"
proof -
  have "[0..<Suc c] = 0 # map Suc [0..<c]" by (simp add: upt_conv_Cons map_Suc_upt del: upt_Suc)
  then show ?thesis by (simp add: comp_def del: upt_Suc)
qed

subsection \<open>Writing into a grid\<close>





lemma write_cells_append: "write_cells g (qs @ rs) g' = write_cells g rs (write_cells g qs g')"
  by (simp add: write_cells_def)

subsection \<open>One pass of one worker\<close>

lemma buf_buf_write [simp]:
  "buf (buf_write b i j v st) b' = (if b' = b then grid_write i j v (buf st b) else buf st b')"
  by (cases b; cases b') (simp_all add: buf_def buf_write_def)

lemma fields_buf_write [simp]:
  "THREAD_PRECISION_REACHED (buf_write b i j v st) = THREAD_PRECISION_REACHED st"
  "PRECISION_REACHED (buf_write b i j v st) = PRECISION_REACHED st"
  "thread_data (buf_write b i j v st) = thread_data st"
  by (cases b; simp add: buf_write_def)+

lemma buf_flags_update [simp]:
  "buf (st\<lparr>THREAD_PRECISION_REACHED := fl\<rparr>) b = buf st b"
  by (cases b) (simp_all add: buf_def)

text \<open>The program adds left, right, up, down; the specification up, down, left, right.\<close>

lemma code_order_average:
  "(g ! i ! (j - 1) + g ! i ! (j + 1) + g ! (i - 1) ! j + g ! (i + 1) ! j) / 4
     = average_of_neighbours g (i, j)"
  by (simp add: average_of_neighbours_def add.commute add.left_commute)

lemma code_order_average_Suc:
  "(g ! i ! (j - Suc 0) + g ! i ! Suc j + g ! (i - Suc 0) ! j + g ! Suc i ! j) / 4
     = average_of_neighbours g (i, j)"
  using code_order_average [of g i j] by simp

lemma relax_cells_loop_effect:
  assumes "original_matrix t \<noteq> new_matrix t"
  shows "buf (relax_cells_loop sz precision t c p st) (original_matrix t) = buf st (original_matrix t) \<and>
         buf (relax_cells_loop sz precision t c p st) (new_matrix t)
           = write_cells (buf st (original_matrix t)) (map (\<lambda>k. advance sz k p) [0..<c])
               (buf st (new_matrix t)) \<and>
         THREAD_PRECISION_REACHED (relax_cells_loop sz precision t c p st)
           = (if \<exists>q\<in>set (map (\<lambda>k. advance sz k p) [0..<c]).
                   exceeds precision (buf st (original_matrix t)) q
              then (THREAD_PRECISION_REACHED st)[thread_id t := False]
              else THREAD_PRECISION_REACHED st) \<and>
         PRECISION_REACHED (relax_cells_loop sz precision t c p st) = PRECISION_REACHED st \<and>
         thread_data (relax_cells_loop sz precision t c p st) = thread_data st"
proof (induction c arbitrary: p st)
  case 0
  then show ?case by (simp add: write_cells_def)
next
  case (Suc c)
  let ?o = "buf st (original_matrix t)"
  let ?v = "average_of_neighbours ?o p"
  let ?st1 = "buf_write (new_matrix t) (fst p) (snd p) ?v st"
  let ?st2 = "if exceeds precision ?o p
              then ?st1\<lparr>THREAD_PRECISION_REACHED := (THREAD_PRECISION_REACHED ?st1)[thread_id t := False]\<rparr>
              else ?st1"
  have o1: "buf ?st1 (original_matrix t) = ?o" using assms by simp
  have step: "relax_cells_loop sz precision t (Suc c) p st
                = relax_cells_loop sz precision t c (next_cell sz p) ?st2"
    using assms by (simp add: Let_def code_order_average_Suc exceeds_def)
  have o2: "buf ?st2 (original_matrix t) = ?o" using assms by simp
  have n2: "buf ?st2 (new_matrix t) = grid_write (fst p) (snd p) ?v (buf st (new_matrix t))"
    by simp
  have f2: "THREAD_PRECISION_REACHED ?st2
              = (if exceeds precision ?o p then (THREAD_PRECISION_REACHED st)[thread_id t := False]
                 else THREAD_PRECISION_REACHED st)"
    by simp
  have p2: "PRECISION_REACHED ?st2 = PRECISION_REACHED st" and t2: "thread_data ?st2 = thread_data st"
    by simp_all
  have w: "write_cells ?o (p # qs) g' = write_cells ?o qs (grid_write (fst p) (snd p) ?v g')" for qs g'
    by (simp add: write_cells_def)
  show ?case
    unfolding step thread_cells_Suc
    using Suc.IH [of "next_cell sz p" ?st2]
    unfolding o2 n2 f2 p2 t2 w
    by (auto simp del: upt_Suc)
qed

section \<open>The distributed worker\<close>








section \<open>One pass of all shared-memory workers\<close>

lemma relax_cells_effect:
  assumes "original_matrix t \<noteq> new_matrix t"
  shows "buf (relax_cells sz precision t st) (original_matrix t) = buf st (original_matrix t)"
    and "buf (relax_cells sz precision t st) (new_matrix t)
           = write_cells (buf st (original_matrix t)) (thread_cells sz t) (buf st (new_matrix t))"
    and "THREAD_PRECISION_REACHED (relax_cells sz precision t st)
           = (if \<exists>q\<in>set (thread_cells sz t). exceeds precision (buf st (original_matrix t)) q
              then (THREAD_PRECISION_REACHED st)[thread_id t := False]
              else THREAD_PRECISION_REACHED st)"
    and "PRECISION_REACHED (relax_cells sz precision t st) = PRECISION_REACHED st"
    and "thread_data (relax_cells sz precision t st) = thread_data st"
  using relax_cells_loop_effect [OF assms, of sz precision "nat (cells t)" "(start_i t, start_j t)" st]
  unfolding relax_cells_def thread_cells_def by blast+

lemma length_lower_flags [simp]: "length (lower_flags bad fl ts) = length fl"
  unfolding lower_flags_def by (induction ts arbitrary: fl) auto


lemma workers_effect:
  assumes "aligned b b' ts"
  shows "buf (foldl (\<lambda>s t. relax_cells sz precision t s) st ts) b = buf st b \<and>
         buf (foldl (\<lambda>s t. relax_cells sz precision t s) st ts) b'
           = write_cells (buf st b) (concat (map (thread_cells sz) ts)) (buf st b') \<and>
         THREAD_PRECISION_REACHED (foldl (\<lambda>s t. relax_cells sz precision t s) st ts)
           = lower_flags (\<lambda>t. \<exists>q\<in>set (thread_cells sz t). exceeds precision (buf st b) q)
               (THREAD_PRECISION_REACHED st) ts \<and>
         PRECISION_REACHED (foldl (\<lambda>s t. relax_cells sz precision t s) st ts) = PRECISION_REACHED st \<and>
         thread_data (foldl (\<lambda>s t. relax_cells sz precision t s) st ts) = thread_data st"
  using assms
proof (induction ts arbitrary: st)
  case Nil
  then show ?case by (simp add: write_cells_def lower_flags_def)
next
  case (Cons t ts)
  then have t: "original_matrix t = b" "new_matrix t = b'" "b \<noteq> b'" and al: "aligned b b' ts"
    by (auto simp: aligned_def)
  have ne: "original_matrix t \<noteq> new_matrix t" using t by simp
  note e = relax_cells_effect [OF ne, of sz precision st, unfolded t]
  show ?case
    using Cons.IH [OF al, of "relax_cells sz precision t st"]
    unfolding e
    by (simp add: write_cells_append [of _ "thread_cells sz t", symmetric] lower_flags_def)
qed

lemma compute_phase_effect:
  assumes "aligned b b' (thread_data st)"
  shows "buf (compute_phase sz precision st) b = buf st b"
    and "buf (compute_phase sz precision st) b'
           = write_cells (buf st b) (concat (map (thread_cells sz) (thread_data st))) (buf st b')"
    and "THREAD_PRECISION_REACHED (compute_phase sz precision st)
           = lower_flags (\<lambda>t. \<exists>q\<in>set (thread_cells sz t). exceeds precision (buf st b) q)
               (THREAD_PRECISION_REACHED st) (thread_data st)"
    and "PRECISION_REACHED (compute_phase sz precision st) = PRECISION_REACHED st"
    and "thread_data (compute_phase sz precision st) = thread_data st"
  using workers_effect [OF assms, of sz precision st] unfolding compute_phase_def by blast+


section \<open>Every assigned cell is averaged\<close>




section \<open>Convergence flags\<close>







section \<open>The distributed scatter and gather layout\<close>

subsection \<open>The row partition\<close>


lemma first_of_0 [simp]: "first_of base rem 0 = 0"
  by (simp add: first_of_def)











section \<open>Boundary cells\<close>

subsection \<open>The runs computed by the partitioner lie in the interior\<close>









subsection \<open>The edges through the shared-memory loop\<close>




lemma buf_simps [simp]:
  "buf (st\<lparr>PRECISION_REACHED := p\<rparr>) b = buf st b"
  "buf (st\<lparr>thread_data := ts\<rparr>) b = buf st b"
  by (cases b; simp add: buf_def)+



lemma interior_run_swap [simp]: "interior_run sz (swap_matrices t) = interior_run sz t"
  by (simp add: interior_run_def swap_matrices_def)








subsection \<open>One iteration of the distributed program\<close>



lemma length_write_at:
  "d + length xs \<le> length m \<Longrightarrow> length (write_at m d xs) = length m"
  by (simp add: write_at_def)



















section \<open>A run that converges in its first pass\<close>

text \<open>
  The 3 x 3 run above, which returns its input, is an instance of a general fact: whenever
  the first pass converges, the loop ends with the matrix it was given untouched and with
  the values of that pass in the copy, which \<open>relax_matrix_parallel\<close> frees.
\<close>

lemma first_pass_leaves_matrix:
  fixes precision :: "'a::linordered_field"
  assumes "aligned Buf_Matrix Buf_New_Matrix (thread_data st)"
    and "combine_flags (THREAD_PRECISION_REACHED (compute_phase sz precision st))
           (PRECISION_REACHED st)"
  shows "\<exists>y. coordinator_loop sz precision st = Some y \<and> matrix_buf y = matrix_buf st \<and>
             new_matrix_buf y
               = write_cells (matrix_buf st) (concat (map (thread_cells sz) (thread_data st)))
                   (new_matrix_buf st)"
proof -
  note e = compute_phase_effect [OF assms(1), of sz precision]
  let ?st1 = "compute_phase sz precision st"
  let ?y = "?st1\<lparr>PRECISION_REACHED := True\<rparr>"
  have "coordinator_loop sz precision st = Some ?y"
    using assms(2) by (subst coordinator_loop.simps) (simp add: Let_def e(4))
  moreover have "matrix_buf ?y = matrix_buf st" using e(1) by (simp add: buf_def)
  moreover have "new_matrix_buf ?y
      = write_cells (matrix_buf st) (concat (map (thread_cells sz) (thread_data st)))
          (new_matrix_buf st)"
    using e(2) by (simp add: buf_def)
  ultimately show ?thesis by blast
qed

end
